theory Spec2Isabelle
  imports Complex_Main
begin

unbundle bit_operations_syntax

section \<open>Transaction risk scoring service (main.py)\<close>

text \<open>
  The service keeps three pieces of process-wide state (the loaded model, the
  audit log, the Prometheus metrics) and exposes a scoring endpoint and an
  audit-log read. Scores and times are modelled as \<^typ>\<open>real\<close>: comparisons of
  floats are exact, so the threshold tests carry over; the float literals
  0.3, 0.6 and 0.8 are read as the decimal numbers they are written as.
  The float fields of a request are modelled by the type \<open>pyfloat\<close> below,
  which keeps the negative zero apart from zero; infinities and NaN are not
  represented.
  Values that the source obtains from its surroundings (the clock, the UUID
  generator) are inputs of the model, collected in the record \<open>env\<close>; the
  library functions \<open>hashlib.sha256(..).hexdigest()\<close> and \<open>str\<close> of a dict
  are parameters of the handler, collected in the record \<open>pylib\<close>, and
  \<open>python_lib\<close> below is what Python supplies for them.
\<close>

subsection \<open>Floats of a request\<close>

text \<open>
  A float that arrives in a request is modelled by the decimal numeral that
  Python prints for it, mantissa times a power of ten; its value is read as
  that decimal number. The float \<open>-0.0\<close> is a value of its own: it compares
  equal to \<open>0.0\<close> and prints differently.
\<close>

datatype pyfloat = PyFloat int int | NegZero

definition fval :: "pyfloat \<Rightarrow> real" where
  "fval x =
     (case x of
        NegZero \<Rightarrow> 0
      | PyFloat m e \<Rightarrow>
          if 0 \<le> e then of_int m * 10 ^ nat e else of_int m / 10 ^ nat (- e))"

text \<open>The float that an \<open>int\<close> becomes inside a numpy array of floats.\<close>

definition float_of_int :: "int \<Rightarrow> pyfloat" where
  "float_of_int i = PyFloat i 0"

subsection \<open>Request and response schemas\<close>

record TransactionFeatures =
  transaction_amount_usd :: pyfloat
  sender_age_days :: int
  transactions_last_24h :: int
  avg_transaction_amount :: pyfloat
  sender_country_risk_score :: pyfloat
  is_new_recipient :: bool
  hour_of_day :: int

record RiskScoreRequest =
  transaction_id :: string
  features :: TransactionFeatures
  customer_id :: "string option"

record RiskScoreResponse =
  resp_transaction_id :: string
  risk_score :: real
  risk_level :: string
  recommendation :: string
  model_version :: string
  timestamp :: string
  correlation_id :: string
  features_hash :: string
  processing_time_ms :: real

text \<open>The dict built by \<open>create_audit_log\<close>, one field per key.\<close>

record audit_entry =
  audit_timestamp :: string
  audit_transaction_id :: string
  audit_customer_id :: "string option"
  audit_risk_score :: real
  audit_risk_level :: string
  audit_recommendation :: string
  audit_model_version :: string
  audit_environment :: string
  audit_correlation_id :: string

subsection \<open>Field validation of TransactionFeatures\<close>

text \<open>
  A pydantic model validates its fields when it is constructed, field by
  field in declaration order, and collects one error per offending field.
  For a numeric field the bounds of \<open>Field(ge=.., le=..)\<close> are checked first
  (\<open>ge\<close> before \<open>le\<close>); the \<open>@validator\<close> of a field runs only when its bounds
  passed. An error names the field and the violated constraint.
\<close>

datatype constraint = Ge int | Le int | ValueError string

datatype field_error = FieldError string constraint

definition validate_amount :: "pyfloat \<Rightarrow> string + pyfloat" where
  "validate_amount v =
     (if fval v > 1000000 then Inl ''Transaction amount exceeds maximum limit'' else Inr v)"

definition check_bounds :: "string \<Rightarrow> int option \<Rightarrow> int option \<Rightarrow> real \<Rightarrow> field_error list" where
  "check_bounds name lo hi v =
     (case lo of
        Some l \<Rightarrow>
          if \<not> (v \<ge> of_int l) then [FieldError name (Ge l)]
          else (case hi of
                  Some h \<Rightarrow> if \<not> (v \<le> of_int h) then [FieldError name (Le h)] else []
                | None \<Rightarrow> [])
      | None \<Rightarrow>
          (case hi of
             Some h \<Rightarrow> if \<not> (v \<le> of_int h) then [FieldError name (Le h)] else []
           | None \<Rightarrow> []))"

definition amount_errors :: "pyfloat \<Rightarrow> field_error list" where
  "amount_errors v =
     (case check_bounds ''transaction_amount_usd'' (Some 0) None (fval v) of
        [] \<Rightarrow> (case validate_amount v of
                 Inl m \<Rightarrow> [FieldError ''transaction_amount_usd'' (ValueError m)]
               | Inr _ \<Rightarrow> [])
      | es \<Rightarrow> es)"

definition TransactionFeatures_errors :: "TransactionFeatures \<Rightarrow> field_error list" where
  "TransactionFeatures_errors f =
     amount_errors (transaction_amount_usd f)
     @ check_bounds ''sender_age_days'' (Some 0) None (of_int (sender_age_days f))
     @ check_bounds ''transactions_last_24h'' (Some 0) (Some 1000) (of_int (transactions_last_24h f))
     @ check_bounds ''avg_transaction_amount'' (Some 0) None (fval (avg_transaction_amount f))
     @ check_bounds ''sender_country_risk_score'' (Some 0) (Some 1)
         (fval (sender_country_risk_score f))
     @ check_bounds ''hour_of_day'' (Some 0) (Some 23) (of_int (hour_of_day f))"

definition TransactionFeatures_validate ::
  "TransactionFeatures \<Rightarrow> field_error list + TransactionFeatures" where
  "TransactionFeatures_validate f =
     (case TransactionFeatures_errors f of [] \<Rightarrow> Inr f | es \<Rightarrow> Inl es)"

definition RiskScoreRequest_validate ::
  "RiskScoreRequest \<Rightarrow> field_error list + RiskScoreRequest" where
  "RiskScoreRequest_validate raw =
     (case TransactionFeatures_validate (features raw) of
        Inl es \<Rightarrow> Inl es
      | Inr f \<Rightarrow> Inr (raw\<lparr>features := f\<rparr>))"

subsection \<open>Process state\<close>

text \<open>
  An exception raised inside the \<open>try\<close> block of \<open>score_transaction\<close> is
  either a \<open>ValueError\<close> (or a subclass of it) or any other subclass of
  \<open>Exception\<close>; both carry their message.
\<close>

datatype py_exception = PyValueError string | PyException string

text \<open>
  The loaded model, as the handler uses it: the expression
  \<open>float(model.predict_proba(feature_vector)[0][1])\<close> either raises or yields
  a float. Its argument is the array of seven floats.
\<close>

type_synonym predictor = "pyfloat list \<Rightarrow> py_exception + real"

record service_state =
  model :: "predictor option"
  MODEL_VERSION :: string
  ENVIRONMENT :: string
  audit_logs :: "audit_entry list"
  PREDICTION_COUNTER :: "string \<times> string \<times> string \<Rightarrow> nat"
  PREDICTION_LATENCY :: "string \<Rightarrow> real list"
  HIGH_RISK_TRANSACTIONS :: int

record env =
  start_time :: real
  end_time :: real
  predict_seconds :: real
  audit_utcnow :: string
  response_utcnow :: string
  handler_uuid :: string
  middleware_uuid :: string

record pylib =
  sha256_hexdigest :: "string \<Rightarrow> string"
  str_dict :: "TransactionFeatures \<Rightarrow> string"

datatype http_error = HTTPException nat string | RequestValidationError "field_error list"

text \<open>\<open>PREDICTION_COUNTER.labels(model_version, risk_level, status).inc()\<close>\<close>

definition inc_counter :: "service_state \<Rightarrow> string \<Rightarrow> string \<Rightarrow> service_state" where
  "inc_counter st lvl status =
     st\<lparr>PREDICTION_COUNTER :=
          (PREDICTION_COUNTER st)
            ((MODEL_VERSION st, lvl, status) :=
               PREDICTION_COUNTER st (MODEL_VERSION st, lvl, status) + 1)\<rparr>"

text \<open>
  The timer of \<open>PREDICTION_LATENCY.labels(..).time()\<close> observes the elapsed
  time when the \<open>with\<close> block is left, also when it is left by an exception.
\<close>

definition observe_latency :: "service_state \<Rightarrow> real \<Rightarrow> service_state" where
  "observe_latency st d =
     st\<lparr>PREDICTION_LATENCY :=
          (PREDICTION_LATENCY st)
            (MODEL_VERSION st := PREDICTION_LATENCY st (MODEL_VERSION st) @ [d])\<rparr>"

definition create_audit_log ::
  "service_state \<Rightarrow> string \<Rightarrow> string \<Rightarrow> real \<Rightarrow> string \<Rightarrow> string \<Rightarrow> string \<Rightarrow> string option
     \<Rightarrow> audit_entry \<times> service_state" where
  "create_audit_log st now tid score lvl rec cid cust =
     (let entry = \<lparr>audit_timestamp = now,
                   audit_transaction_id = tid,
                   audit_customer_id = cust,
                   audit_risk_score = score,
                   audit_risk_level = lvl,
                   audit_recommendation = rec,
                   audit_model_version = MODEL_VERSION st,
                   audit_environment = ENVIRONMENT st,
                   audit_correlation_id = cid\<rparr>
      in (entry, st\<lparr>audit_logs := audit_logs st @ [entry]\<rparr>))"

subsection \<open>Scoring\<close>

text \<open>
  Python's \<open>round(x, n)\<close> on a float rounds to \<open>n\<close> decimals, ties to the even
  neighbour.
\<close>

definition round_half_even :: "real \<Rightarrow> int" where
  "round_half_even x =
     (let f = \<lfloor>x\<rfloor>; d = x - of_int f
      in if d < 1 / 2 then f
         else if d > 1 / 2 then f + 1
         else if even f then f else f + 1)"

definition py_round :: "real \<Rightarrow> nat \<Rightarrow> real" where
  "py_round x n = of_int (round_half_even (x * 10 ^ n)) / 10 ^ n"

text \<open>The \<open>if\<close>/\<open>elif\<close> chain that determines risk level and recommendation.\<close>

definition determine_risk :: "real \<Rightarrow> string \<times> string" where
  "determine_risk score =
     (if score < 0.3 then (''LOW'', ''APPROVE'')
      else if score < 0.6 then (''MEDIUM'', ''REVIEW'')
      else if score < 0.8 then (''HIGH'', ''REVIEW'')
      else (''CRITICAL'', ''REJECT''))"

definition feature_vector :: "TransactionFeatures \<Rightarrow> pyfloat list" where
  "feature_vector d =
     [transaction_amount_usd d,
      float_of_int (sender_age_days d),
      float_of_int (transactions_last_24h d),
      avg_transaction_amount d,
      sender_country_risk_score d,
      float_of_int (if is_new_recipient d then 1 else 0),
      float_of_int (hour_of_day d)]"

text \<open>\<open>x_correlation_id or str(uuid.uuid4())\<close>: an empty header counts as absent.\<close>

definition handler_correlation_id :: "string option \<Rightarrow> env \<Rightarrow> string" where
  "handler_correlation_id x_correlation_id e =
     (case x_correlation_id of
        None \<Rightarrow> handler_uuid e
      | Some s \<Rightarrow> if s = [] then handler_uuid e else s)"

text \<open>The body of the \<open>try\<close> block; \<open>Inl\<close> is an exception that leaves it.\<close>

definition score_try ::
  "pylib \<Rightarrow> predictor \<Rightarrow> service_state \<Rightarrow> RiskScoreRequest \<Rightarrow> string \<Rightarrow> env
     \<Rightarrow> (py_exception + RiskScoreResponse) \<times> service_state" where
  "score_try L m st request cid e =
     (let features_dict = features request;
          vec = feature_vector features_dict;
          fhash = sha256_hexdigest L (str_dict L features_dict);
          st1 = observe_latency st (predict_seconds e)
      in case m vec of
           Inl exn \<Rightarrow> (Inl exn, st1)
         | Inr score \<Rightarrow>
             (let lvl = fst (determine_risk score);
                  rec = snd (determine_risk score);
                  ms = (end_time e - start_time e) * 1000;
                  st2 = inc_counter st1 lvl ''success'';
                  st3 = (if lvl \<in> set [''HIGH'', ''CRITICAL'']
                         then st2\<lparr>HIGH_RISK_TRANSACTIONS := HIGH_RISK_TRANSACTIONS st2 + 1\<rparr>
                         else st2);
                  st4 = snd (create_audit_log st3 (audit_utcnow e) (transaction_id request)
                               score lvl rec cid (customer_id request))
              in (Inr \<lparr>resp_transaction_id = transaction_id request,
                       risk_score = py_round score 4,
                       risk_level = lvl,
                       recommendation = rec,
                       model_version = MODEL_VERSION st,
                       timestamp = response_utcnow e,
                       correlation_id = cid,
                       features_hash = fhash,
                       processing_time_ms = py_round ms 2\<rparr>, st4)))"

definition score_transaction ::
  "pylib \<Rightarrow> service_state \<Rightarrow> RiskScoreRequest \<Rightarrow> string option \<Rightarrow> env
     \<Rightarrow> (http_error + RiskScoreResponse) \<times> service_state" where
  "score_transaction L st request x_correlation_id e =
     (let cid = handler_correlation_id x_correlation_id e
      in case model st of
           None \<Rightarrow>
             (Inl (HTTPException 503 ''Model not loaded''), inc_counter st ''ERROR'' ''error'')
         | Some m \<Rightarrow>
             (case score_try L m st request cid e of
                (Inr resp, st') \<Rightarrow> (Inr resp, st')
              | (Inl (PyValueError msg), st') \<Rightarrow>
                  (Inl (HTTPException 400 (''Invalid input: '' @ msg)),
                   inc_counter st' ''ERROR'' ''validation_error'')
              | (Inl (PyException msg), st') \<Rightarrow>
                  (Inl (HTTPException 500 ''Internal server error''),
                   inc_counter st' ''ERROR'' ''error'')))"

subsection \<open>The scoring endpoint\<close>

text \<open>
  The middleware \<open>add_correlation_id\<close> sets the response header
  \<open>X-Correlation-ID\<close> to the request's header when it is present, and to a
  UUID of its own otherwise.
\<close>

definition add_correlation_id :: "string option \<Rightarrow> env \<Rightarrow> string" where
  "add_correlation_id x_correlation_id e =
     (case x_correlation_id of None \<Rightarrow> middleware_uuid e | Some s \<Rightarrow> s)"

record http_response =
  header_x_correlation_id :: string
  body :: "http_error + RiskScoreResponse"

text \<open>
  \<open>POST /score\<close>: the handler's parameter \<open>request: RiskScoreRequest\<close> is
  constructed, and so validated, from the body before \<open>score_transaction\<close>
  is called; a body that fails validation is answered with the validation
  errors and the handler does not run.
\<close>

definition post_score ::
  "pylib \<Rightarrow> service_state \<Rightarrow> RiskScoreRequest \<Rightarrow> string option \<Rightarrow> env
     \<Rightarrow> http_response \<times> service_state" where
  "post_score L st raw x_correlation_id e =
     (let out = (case RiskScoreRequest_validate raw of
                   Inl es \<Rightarrow> (Inl (RequestValidationError es), st)
                 | Inr request \<Rightarrow> score_transaction L st request x_correlation_id e)
      in (\<lparr>header_x_correlation_id = add_correlation_id x_correlation_id e,
           body = fst out\<rparr>, snd out))"

subsection \<open>Reading the audit log\<close>

text \<open>
  Python's \<open>xs[start:]\<close>: a negative \<open>start\<close> counts from the end, and either
  way the index is clamped to the list.
\<close>

definition py_slice_from :: "'a list \<Rightarrow> int \<Rightarrow> 'a list" where
  "py_slice_from xs start =
     (let n = int (length xs);
          s = (if start < 0 then max (start + n) 0 else min start n)
      in drop (nat s) xs)"

definition get_audit_logs :: "service_state \<Rightarrow> int \<Rightarrow> nat \<times> audit_entry list" where
  "get_audit_logs st limit = (length (audit_logs st), py_slice_from (audit_logs st) (- limit))"

subsection \<open>The service as a whole\<close>

text \<open>
  The other endpoints only read the state: \<open>/health\<close> and \<open>/ready\<close> report
  whether a model is loaded, \<open>/metrics\<close> renders the registry and \<open>/\<close>
  returns a constant description.
\<close>

datatype api_call =
    PostScore RiskScoreRequest "string option" env
  | GetAuditLogs int
  | Health
  | Ready
  | Metrics
  | Root

datatype api_result =
    ScoreResult http_response
  | AuditLogsResult nat "audit_entry list"
  | HealthResult bool string string
  | ReadyResult "http_error + bool \<times> string \<times> string"
  | MetricsResult "string \<times> string \<times> string \<Rightarrow> nat" "string \<Rightarrow> real list" int
  | RootResult string string

definition handle :: "pylib \<Rightarrow> service_state \<Rightarrow> api_call \<Rightarrow> api_result \<times> service_state" where
  "handle L st c =
     (case c of
        PostScore raw hdr e \<Rightarrow>
          (ScoreResult (fst (post_score L st raw hdr e)), snd (post_score L st raw hdr e))
      | GetAuditLogs limit \<Rightarrow>
          (AuditLogsResult (fst (get_audit_logs st limit)) (snd (get_audit_logs st limit)), st)
      | Health \<Rightarrow>
          (HealthResult (case model st of None \<Rightarrow> False | Some m \<Rightarrow> True)
             (MODEL_VERSION st) (ENVIRONMENT st), st)
      | Ready \<Rightarrow>
          (ReadyResult (case model st of
                          None \<Rightarrow> Inl (HTTPException 503 ''Model not loaded'')
                        | Some m \<Rightarrow> Inr (True, MODEL_VERSION st, ENVIRONMENT st)), st)
      | Metrics \<Rightarrow>
          (MetricsResult (PREDICTION_COUNTER st) (PREDICTION_LATENCY st)
             (HIGH_RISK_TRANSACTIONS st), st)
      | Root \<Rightarrow> (RootResult (MODEL_VERSION st) (ENVIRONMENT st), st))"

fun run :: "pylib \<Rightarrow> service_state \<Rightarrow> api_call list \<Rightarrow> api_result list \<times> service_state" where
  "run L st [] = ([], st)"
| "run L st (c # cs) =
     (fst (handle L st c) # fst (run L (snd (handle L st c)) cs),
      snd (run L (snd (handle L st c)) cs))"

text \<open>A successful scoring whose risk level is HIGH or CRITICAL.\<close>

definition high_risk_success :: "api_result \<Rightarrow> bool" where
  "high_risk_success r =
     (case r of
        ScoreResult h \<Rightarrow>
          (case body h of
             Inr resp \<Rightarrow> risk_level resp \<in> set [''HIGH'', ''CRITICAL'']
           | Inl _ \<Rightarrow> False)
      | _ \<Rightarrow> False)"

text \<open>The state of a fresh process: no model, an empty audit log, all metrics at zero.\<close>

definition initial_state :: "string \<Rightarrow> string \<Rightarrow> service_state" where
  "initial_state version environment =
     \<lparr>model = None,
      MODEL_VERSION = version,
      ENVIRONMENT = environment,
      audit_logs = [],
      PREDICTION_COUNTER = (\<lambda>_. 0),
      PREDICTION_LATENCY = (\<lambda>_. []),
      HIGH_RISK_TRANSACTIONS = 0\<rparr>"

text \<open>\<open>load_model\<close>, given what unpickling the model file yields.\<close>

definition load_model :: "py_exception + predictor \<Rightarrow> service_state \<Rightarrow> py_exception + service_state" where
  "load_model unpickled st =
     (case unpickled of Inl exn \<Rightarrow> Inl exn | Inr m \<Rightarrow> Inr (st\<lparr>model := Some m\<rparr>))"

subsection \<open>What Python supplies: the printed dict and SHA-256\<close>

text \<open>
  \<open>str\<close> of the dict returned by \<open>.dict()\<close> prints the fields in declaration
  order, each value by its \<open>repr\<close>. The \<open>repr\<close> of a float is its shortest
  decimal numeral: plain notation with at least one digit after the point
  when the decimal point lies within the range that Python prints without an
  exponent (a leading digit from \<open>1e-04\<close> up to below \<open>1e+16\<close>), and
  exponent notation with at least two exponent digits otherwise.
\<close>

definition digit_char :: "int \<Rightarrow> char" where
  "digit_char d = ''0123456789'' ! nat d"

function digits_str :: "int \<Rightarrow> string" where
  "digits_str n = (if n < 10 then [digit_char n] else digits_str (n div 10) @ [digit_char (n mod 10)])"
  by pat_completeness auto
termination
  by (relation "measure nat") auto

declare digits_str.simps [simp del]

definition int_str :: "int \<Rightarrow> string" where
  "int_str i = (if i < 0 then ''-'' @ digits_str (- i) else digits_str i)"

definition bool_str :: "bool \<Rightarrow> string" where
  "bool_str b = (if b then ''True'' else ''False'')"

function strip_zeros :: "int \<Rightarrow> int \<Rightarrow> int \<times> int" where
  "strip_zeros d e = (if 0 < d \<and> d mod 10 = 0 then strip_zeros (d div 10) (e + 1) else (d, e))"
  by pat_completeness auto
termination
  by (relation "measure (\<lambda>(d, e). nat d)") auto

declare strip_zeros.simps [simp del]

definition exp_str :: "int \<Rightarrow> string" where
  "exp_str x =
     (if x < 0 then ''-'' else ''+'') @ (if \<bar>x\<bar> < 10 then ''0'' else '''') @ digits_str \<bar>x\<bar>"

definition float_repr :: "pyfloat \<Rightarrow> string" where
  "float_repr x =
     (case x of
        NegZero \<Rightarrow> ''-0.0''
      | PyFloat m ex \<Rightarrow>
          (let d = fst (strip_zeros \<bar>m\<bar> ex);
               e = snd (strip_zeros \<bar>m\<bar> ex);
               ds = digits_str d;
               n = int (length ds);
               decpt = n + e;
               body =
                 (if d = 0 then ''0.0''
                  else if - 4 < decpt \<and> decpt \<le> 16 then
                    (if decpt \<le> 0 then ''0.'' @ replicate (nat (- decpt)) CHR ''0'' @ ds
                     else if n \<le> decpt then ds @ replicate (nat (decpt - n)) CHR ''0'' @ ''.0''
                     else take (nat decpt) ds @ ''.'' @ drop (nat decpt) ds)
                  else
                    hd ds # (if 1 < n then ''.'' @ tl ds else '''') @ ''e'' @ exp_str (decpt - 1))
           in (if m < 0 then ''-'' else '''') @ body))"

definition str_features_dict :: "TransactionFeatures \<Rightarrow> string" where
  "str_features_dict d =
     ''{'' @ CHR 0x27 # ''transaction_amount_usd'' @ CHR 0x27 # '': ''
         @ float_repr (transaction_amount_usd d)
     @ '', '' @ CHR 0x27 # ''sender_age_days'' @ CHR 0x27 # '': '' @ int_str (sender_age_days d)
     @ '', '' @ CHR 0x27 # ''transactions_last_24h'' @ CHR 0x27 # '': ''
         @ int_str (transactions_last_24h d)
     @ '', '' @ CHR 0x27 # ''avg_transaction_amount'' @ CHR 0x27 # '': ''
         @ float_repr (avg_transaction_amount d)
     @ '', '' @ CHR 0x27 # ''sender_country_risk_score'' @ CHR 0x27 # '': ''
         @ float_repr (sender_country_risk_score d)
     @ '', '' @ CHR 0x27 # ''is_new_recipient'' @ CHR 0x27 # '': '' @ bool_str (is_new_recipient d)
     @ '', '' @ CHR 0x27 # ''hour_of_day'' @ CHR 0x27 # '': '' @ int_str (hour_of_day d)
     @ ''}''"

text \<open>
  SHA-256 over the bytes of a string, with 32-bit words as integers below
  \<open>2^32\<close> and the wrap-around of additions written out; the round
  constants and the initial state are given in decimal, and the digest is
  printed in lower-case hexadecimal.
\<close>

definition sha_add32 :: "int \<Rightarrow> int \<Rightarrow> int" where
  "sha_add32 x y = (x + y) mod 4294967296"

definition sha_rotr :: "nat \<Rightarrow> int \<Rightarrow> int" where
  "sha_rotr n x = x div 2 ^ n + (x mod 2 ^ n) * 2 ^ (32 - n)"

definition sha_shr :: "nat \<Rightarrow> int \<Rightarrow> int" where
  "sha_shr n x = x div 2 ^ n"

definition sha_not32 :: "int \<Rightarrow> int" where
  "sha_not32 x = 4294967295 - x"

definition sha_Ch :: "int \<Rightarrow> int \<Rightarrow> int \<Rightarrow> int" where
  "sha_Ch x y z = (x AND y) XOR (sha_not32 x AND z)"

definition sha_Maj :: "int \<Rightarrow> int \<Rightarrow> int \<Rightarrow> int" where
  "sha_Maj x y z = (x AND y) XOR (x AND z) XOR (y AND z)"

definition sha_Sigma0 :: "int \<Rightarrow> int" where
  "sha_Sigma0 x = sha_rotr 2 x XOR sha_rotr 13 x XOR sha_rotr 22 x"

definition sha_Sigma1 :: "int \<Rightarrow> int" where
  "sha_Sigma1 x = sha_rotr 6 x XOR sha_rotr 11 x XOR sha_rotr 25 x"

definition sha_sigma0 :: "int \<Rightarrow> int" where
  "sha_sigma0 x = sha_rotr 7 x XOR sha_rotr 18 x XOR sha_shr 3 x"

definition sha_sigma1 :: "int \<Rightarrow> int" where
  "sha_sigma1 x = sha_rotr 17 x XOR sha_rotr 19 x XOR sha_shr 10 x"

definition sha_K :: "int list" where
  "sha_K =
     [1116352408, 1899447441, 3049323471, 3921009573, 961987163, 1508970993,
      2453635748, 2870763221, 3624381080, 310598401, 607225278, 1426881987,
      1925078388, 2162078206, 2614888103, 3248222580, 3835390401, 4022224774,
      264347078, 604807628, 770255983, 1249150122, 1555081692, 1996064986,
      2554220882, 2821834349, 2952996808, 3210313671, 3336571891, 3584528711,
      113926993, 338241895, 666307205, 773529912, 1294757372, 1396182291,
      1695183700, 1986661051, 2177026350, 2456956037, 2730485921, 2820302411,
      3259730800, 3345764771, 3516065817, 3600352804, 4094571909, 275423344,
      430227734, 506948616, 659060556, 883997877, 958139571, 1322822218,
      1537002063, 1747873779, 1955562222, 2024104815, 2227730452, 2361852424,
      2428436474, 2756734187, 3204031479, 3329325298]"

type_synonym sha_state = "int \<times> int \<times> int \<times> int \<times> int \<times> int \<times> int \<times> int"

definition sha_H0 :: sha_state where
  "sha_H0 =
     (1779033703, 3144134277, 1013904242, 2773480762,
      1359893119, 2600822924, 528734635, 1541459225)"

text \<open>
  The message schedule of one block, one word per round constant. The first
  argument is the window of the 16 most recent words, oldest first.
\<close>

fun sha_schedule :: "int list \<Rightarrow> int list \<Rightarrow> int list" where
  "sha_schedule ws [] = []"
| "sha_schedule ws (k # ks) =
     (case ws of
        [] \<Rightarrow> []
      | w # ws' \<Rightarrow>
          w # sha_schedule
                (ws' @ [sha_add32
                          (sha_add32 (sha_add32 (sha_sigma1 (ws ! 14)) (ws ! 9))
                             (sha_sigma0 (ws ! 1)))
                          w])
                ks)"

definition sha_round :: "sha_state \<Rightarrow> int \<times> int \<Rightarrow> sha_state" where
  "sha_round s kw =
     (case s of (a, b, c, d, e, f, g, h) \<Rightarrow>
        (let t1 = sha_add32
                    (sha_add32 (sha_add32 (sha_add32 h (sha_Sigma1 e)) (sha_Ch e f g)) (fst kw))
                    (snd kw);
             t2 = sha_add32 (sha_Sigma0 a) (sha_Maj a b c)
         in (sha_add32 t1 t2, a, b, c, sha_add32 d t1, e, f, g)))"

definition sha_add_state :: "sha_state \<Rightarrow> sha_state \<Rightarrow> sha_state" where
  "sha_add_state s t =
     (case s of (a, b, c, d, e, f, g, h) \<Rightarrow>
      case t of (a', b', c', d', e', f', g', h') \<Rightarrow>
        (sha_add32 a a', sha_add32 b b', sha_add32 c c', sha_add32 d d',
         sha_add32 e e', sha_add32 f f', sha_add32 g g', sha_add32 h h'))"

definition sha_compress :: "sha_state \<Rightarrow> int list \<Rightarrow> sha_state" where
  "sha_compress hs block =
     sha_add_state hs (foldl sha_round hs (zip sha_K (sha_schedule block sha_K)))"

text \<open>Bytes to big-endian words, words to blocks of 16.\<close>

fun sha_words :: "int list \<Rightarrow> int list" where
  "sha_words (a # b # c # d # bs) = (((a * 256 + b) * 256 + c) * 256 + d) # sha_words bs"
| "sha_words _ = []"

fun sha_blocks :: "int list \<Rightarrow> int list \<Rightarrow> int list list" where
  "sha_blocks [] acc = (if acc = [] then [] else [acc])"
| "sha_blocks (w # ws) acc =
     (if length acc = 15 then (acc @ [w]) # sha_blocks ws [] else sha_blocks ws (acc @ [w]))"

definition sha_length_bytes :: "int \<Rightarrow> int list" where
  "sha_length_bytes n = map (\<lambda>i. (n div 256 ^ i) mod 256) [7, 6, 5, 4, 3, 2, 1, 0]"

definition sha_pad :: "int list \<Rightarrow> int list" where
  "sha_pad bs =
     bs @ [128] @ replicate ((119 - length bs mod 64) mod 64) 0
     @ sha_length_bytes (8 * int (length bs))"

definition hex_digit :: "int \<Rightarrow> char" where
  "hex_digit n = ''0123456789abcdef'' ! nat n"

definition hex_word :: "int \<Rightarrow> string" where
  "hex_word w = map (\<lambda>i. hex_digit ((w div 16 ^ i) mod 16)) [7, 6, 5, 4, 3, 2, 1, 0]"

definition sha256_hex :: "string \<Rightarrow> string" where
  "sha256_hex s =
     (case foldl sha_compress sha_H0 (sha_blocks (sha_words (sha_pad (map of_char s))) []) of
        (a, b, c, d, e, f, g, h) \<Rightarrow> concat (map hex_word [a, b, c, d, e, f, g, h]))"

definition python_lib :: pylib where
  "python_lib = \<lparr>sha256_hexdigest = sha256_hex, str_dict = str_features_dict\<rparr>"

subsection \<open>Concrete inputs\<close>

text \<open>
  The end-to-end scenario: transaction T1 against a model that returns a
  fixed value. The library stand-ins are only used to evaluate examples.
\<close>

definition example_features :: TransactionFeatures where
  "example_features =
     \<lparr>transaction_amount_usd = PyFloat 5 4,
      sender_age_days = 2,
      transactions_last_24h = 15,
      avg_transaction_amount = PyFloat 2 2,
      sender_country_risk_score = PyFloat 9 (- 1),
      is_new_recipient = True,
      hour_of_day = 3\<rparr>"

definition example_request :: RiskScoreRequest where
  "example_request =
     \<lparr>transaction_id = ''T1'', features = example_features, customer_id = None\<rparr>"

definition example_env :: env where
  "example_env =
     \<lparr>start_time = 100,
      end_time = 100.012,
      predict_seconds = 0.01,
      audit_utcnow = ''2024-01-01T00:00:00.000100'',
      response_utcnow = ''2024-01-01T00:00:00.000200'',
      handler_uuid = ''uuid-B'',
      middleware_uuid = ''uuid-A''\<rparr>"

definition example_lib :: pylib where
  "example_lib = \<lparr>sha256_hexdigest = (\<lambda>s. s), str_dict = (\<lambda>f. ''features'')\<rparr>"

definition example_state :: "predictor \<Rightarrow> service_state" where
  "example_state m = (initial_state ''v1.0.0'' ''production'')\<lparr>model := Some m\<rparr>"

text \<open>
  Python's \<open>==\<close> on two feature sets, field for field: floats compare by
  value, so \<open>0.0 == -0.0\<close>.
\<close>

definition py_eq_features :: "TransactionFeatures \<Rightarrow> TransactionFeatures \<Rightarrow> bool" where
  "py_eq_features f g =
     (fval (transaction_amount_usd f) = fval (transaction_amount_usd g)
      \<and> sender_age_days f = sender_age_days g
      \<and> transactions_last_24h f = transactions_last_24h g
      \<and> fval (avg_transaction_amount f) = fval (avg_transaction_amount g)
      \<and> fval (sender_country_risk_score f) = fval (sender_country_risk_score g)
      \<and> is_new_recipient f = is_new_recipient g
      \<and> hour_of_day f = hour_of_day g)"

text \<open>The example features with a country risk score of \<open>0.0\<close> and of \<open>-0.0\<close>.\<close>

definition zero_risk_features :: TransactionFeatures where
  "zero_risk_features = example_features\<lparr>sender_country_risk_score := PyFloat 0 0\<rparr>"

definition negzero_risk_features :: TransactionFeatures where
  "negzero_risk_features = example_features\<lparr>sender_country_risk_score := NegZero\<rparr>"

text \<open>A service whose audit log holds five entries, T1 to T5 in the order they were appended.\<close>

definition example_entry :: "string \<Rightarrow> audit_entry" where
  "example_entry tid =
     \<lparr>audit_timestamp = ''2024-01-01T00:00:00.000100'',
      audit_transaction_id = tid,
      audit_customer_id = None,
      audit_risk_score = 0.85,
      audit_risk_level = ''CRITICAL'',
      audit_recommendation = ''REJECT'',
      audit_model_version = ''v1.0.0'',
      audit_environment = ''production'',
      audit_correlation_id = ''uuid-B''\<rparr>"

definition example_state5 :: service_state where
  "example_state5 =
     (example_state (\<lambda>v. Inr 0.85))
       \<lparr>audit_logs := map example_entry [''T1'', ''T2'', ''T3'', ''T4'', ''T5'']\<rparr>"

section \<open>What one call of the handler does\<close>

text \<open>
  The three ways \<open>score_transaction\<close> can go: no model is loaded, the
  prediction raises, or the prediction returns a score.
\<close>

lemma score_transaction_no_model:
  assumes "model st = None"
  shows "score_transaction L st request hdr e =
           (Inl (HTTPException 503 ''Model not loaded''), inc_counter st ''ERROR'' ''error'')"
  using assms by (simp add: score_transaction_def)

lemma score_transaction_raises:
  assumes "model st = Some m" and "m (feature_vector (features request)) = Inl exn"
  shows "score_transaction L st request hdr e =
           (case exn of
              PyValueError msg \<Rightarrow>
                (Inl (HTTPException 400 (''Invalid input: '' @ msg)),
                 inc_counter (observe_latency st (predict_seconds e)) ''ERROR'' ''validation_error'')
            | PyException msg \<Rightarrow>
                (Inl (HTTPException 500 ''Internal server error''),
                 inc_counter (observe_latency st (predict_seconds e)) ''ERROR'' ''error''))"
  using assms by (cases exn) (simp_all add: score_transaction_def score_try_def Let_def)

lemma score_transaction_ok:
  assumes "model st = Some m" and "m (feature_vector (features request)) = Inr p"
  shows "\<exists>resp st' entry. score_transaction L st request hdr e = (Inr resp, st')
           \<and> resp_transaction_id resp = transaction_id request
           \<and> risk_level resp = fst (determine_risk p)
           \<and> recommendation resp = snd (determine_risk p)
           \<and> risk_score resp = py_round p 4
           \<and> correlation_id resp = handler_correlation_id hdr e
           \<and> features_hash resp = sha256_hexdigest L (str_dict L (features request))
           \<and> audit_logs st' = audit_logs st @ [entry]
           \<and> audit_transaction_id entry = transaction_id request
           \<and> audit_risk_score entry = p
           \<and> audit_risk_level entry = fst (determine_risk p)
           \<and> audit_recommendation entry = snd (determine_risk p)
           \<and> audit_correlation_id entry = handler_correlation_id hdr e
           \<and> PREDICTION_COUNTER st' =
               (PREDICTION_COUNTER st)
                 ((MODEL_VERSION st, fst (determine_risk p), ''success'') :=
                    PREDICTION_COUNTER st (MODEL_VERSION st, fst (determine_risk p), ''success'') + 1)
           \<and> HIGH_RISK_TRANSACTIONS st' =
               HIGH_RISK_TRANSACTIONS st
                 + (if fst (determine_risk p) \<in> set [''HIGH'', ''CRITICAL''] then 1 else 0)"
  using assms
  by (simp add: score_transaction_def score_try_def Let_def create_audit_log_def
        inc_counter_def observe_latency_def)

section \<open>Risk policy\<close>

text \<open>
  C1. Whenever the model returns a probability \<open>p\<close> in [0, 1], scoring succeeds and
  the response carries LOW/APPROVE for \<open>p < 0.3\<close>, MEDIUM/REVIEW for
  \<open>0.3 \<le> p < 0.6\<close>, HIGH/REVIEW for \<open>0.6 \<le> p < 0.8\<close> and CRITICAL/REJECT
  for \<open>0.8 \<le> p\<close>; each boundary value falls in the upper bucket.
\<close>

theorem score_transaction_threshold_table:
  assumes "model st = Some m"
    and "m (feature_vector (features request)) = Inr p"
    and "0 \<le> p" and "p \<le> 1"
  shows "\<exists>resp st'. score_transaction L st request hdr e = (Inr resp, st')
           \<and> (p < 0.3 \<longrightarrow> risk_level resp = ''LOW'' \<and> recommendation resp = ''APPROVE'')
           \<and> (0.3 \<le> p \<and> p < 0.6 \<longrightarrow>
                 risk_level resp = ''MEDIUM'' \<and> recommendation resp = ''REVIEW'')
           \<and> (0.6 \<le> p \<and> p < 0.8 \<longrightarrow>
                 risk_level resp = ''HIGH'' \<and> recommendation resp = ''REVIEW'')
           \<and> (0.8 \<le> p \<longrightarrow>
                 risk_level resp = ''CRITICAL'' \<and> recommendation resp = ''REJECT'')"
proof -
  from score_transaction_ok [OF assms(1,2), of L hdr e]
  obtain resp st' where ok: "score_transaction L st request hdr e = (Inr resp, st')"
    and lvl: "risk_level resp = fst (determine_risk p)"
    and rec: "recommendation resp = snd (determine_risk p)"
    by blast
  have "p < 0.3 \<longrightarrow> determine_risk p = (''LOW'', ''APPROVE'')"
    by (simp add: determine_risk_def)
  moreover have "0.3 \<le> p \<and> p < 0.6 \<longrightarrow> determine_risk p = (''MEDIUM'', ''REVIEW'')"
    by (simp add: determine_risk_def)
  moreover have "0.6 \<le> p \<and> p < 0.8 \<longrightarrow> determine_risk p = (''HIGH'', ''REVIEW'')"
    by (simp add: determine_risk_def)
  moreover have "0.8 \<le> p \<longrightarrow> determine_risk p = (''CRITICAL'', ''REJECT'')"
    by (simp add: determine_risk_def)
  ultimately show ?thesis using ok lvl rec by simp
qed

theorem score_transaction_threshold_table_witness:
  "(\<exists>resp st'. score_transaction example_lib (example_state (\<lambda>v. Inr 0.1)) example_request None example_env
       = (Inr resp, st') \<and> risk_level resp = ''LOW'' \<and> recommendation resp = ''APPROVE'')
   \<and> (\<exists>resp st'. score_transaction example_lib (example_state (\<lambda>v. Inr 0.3)) example_request None example_env
       = (Inr resp, st') \<and> risk_level resp = ''MEDIUM'' \<and> recommendation resp = ''REVIEW'')
   \<and> (\<exists>resp st'. score_transaction example_lib (example_state (\<lambda>v. Inr 0.6)) example_request None example_env
       = (Inr resp, st') \<and> risk_level resp = ''HIGH'' \<and> recommendation resp = ''REVIEW'')
   \<and> (\<exists>resp st'. score_transaction example_lib (example_state (\<lambda>v. Inr 0.8)) example_request None example_env
       = (Inr resp, st') \<and> risk_level resp = ''CRITICAL'' \<and> recommendation resp = ''REJECT'')"
proof -
  have m: "\<And>q. model (example_state (\<lambda>v. Inr q)) = Some (\<lambda>v. Inr q)"
    by (simp add: example_state_def)
  note t = score_transaction_threshold_table [OF m, where request = example_request
      and L = example_lib and hdr = None and e = example_env]
  show ?thesis
    using t [where p = "0.1"] t [where p = "0.3"] t [where p = "0.6"] t [where p = "0.8"]
    by simp
qed

section \<open>Validation\<close>

lemma validate_accepts:
  "TransactionFeatures_errors f = [] \<Longrightarrow> TransactionFeatures_validate f = Inr f"
  by (simp add: TransactionFeatures_validate_def)

lemma validate_rejects:
  "TransactionFeatures_errors f \<noteq> [] \<Longrightarrow>
     TransactionFeatures_validate f = Inl (TransactionFeatures_errors f)"
  by (cases "TransactionFeatures_errors f") (simp_all add: TransactionFeatures_validate_def)

lemma errors_empty_iff:
  "TransactionFeatures_errors f = [] \<longleftrightarrow>
     0 \<le> fval (transaction_amount_usd f) \<and> fval (transaction_amount_usd f) \<le> 1000000
     \<and> 0 \<le> sender_age_days f
     \<and> 0 \<le> transactions_last_24h f \<and> transactions_last_24h f \<le> 1000
     \<and> 0 \<le> fval (avg_transaction_amount f)
     \<and> 0 \<le> fval (sender_country_risk_score f) \<and> fval (sender_country_risk_score f) \<le> 1
     \<and> 0 \<le> hour_of_day f \<and> hour_of_day f \<le> 23"
  by (auto simp add: TransactionFeatures_errors_def amount_errors_def check_bounds_def
        validate_amount_def split: if_splits)

lemma amount_over_limit_error:
  "fval a = 1000001 \<Longrightarrow>
   FieldError ''transaction_amount_usd'' (ValueError ''Transaction amount exceeds maximum limit'')
     \<in> set (TransactionFeatures_errors (f\<lparr>transaction_amount_usd := a\<rparr>))"
  by (simp add: TransactionFeatures_errors_def amount_errors_def check_bounds_def
        validate_amount_def)

lemma hour_24_error:
  "FieldError ''hour_of_day'' (Le 23) \<in> set (TransactionFeatures_errors (f\<lparr>hour_of_day := 24\<rparr>))"
  by (simp add: TransactionFeatures_errors_def check_bounds_def)

lemma hour_minus_1_error:
  "FieldError ''hour_of_day'' (Ge 0) \<in> set (TransactionFeatures_errors (f\<lparr>hour_of_day := - 1\<rparr>))"
  by (simp add: TransactionFeatures_errors_def check_bounds_def)

text \<open>
  C2. Validation accepts an amount of 1,000,000 and rejects 1,000,001, accepts
  the hours 0 and 23 and rejects 24 and -1 (acceptance for every feature set
  that is valid otherwise, amounts being any float of that value). A
  rejection is a list of errors, never a \<open>TransactionFeatures\<close> value, and the
  list names the field and the violated constraint.
\<close>

theorem validation_boundaries:
  "(TransactionFeatures_errors f = [] \<and> fval a = 1000000 \<longrightarrow>
      TransactionFeatures_validate (f\<lparr>transaction_amount_usd := a\<rparr>)
        = Inr (f\<lparr>transaction_amount_usd := a\<rparr>))
   \<and> (TransactionFeatures_errors f = [] \<longrightarrow>
      TransactionFeatures_validate (f\<lparr>hour_of_day := 0\<rparr>) = Inr (f\<lparr>hour_of_day := 0\<rparr>)
      \<and> TransactionFeatures_validate (f\<lparr>hour_of_day := 23\<rparr>) = Inr (f\<lparr>hour_of_day := 23\<rparr>))
   \<and> (fval b = 1000001 \<longrightarrow>
        (\<exists>es. TransactionFeatures_validate (f\<lparr>transaction_amount_usd := b\<rparr>) = Inl es
           \<and> FieldError ''transaction_amount_usd''
                (ValueError ''Transaction amount exceeds maximum limit'') \<in> set es))
   \<and> (\<exists>es. TransactionFeatures_validate (f\<lparr>hour_of_day := 24\<rparr>) = Inl es
         \<and> FieldError ''hour_of_day'' (Le 23) \<in> set es)
   \<and> (\<exists>es. TransactionFeatures_validate (f\<lparr>hour_of_day := - 1\<rparr>) = Inl es
         \<and> FieldError ''hour_of_day'' (Ge 0) \<in> set es)"
proof -
  have acc1: "TransactionFeatures_errors f = [] \<and> fval a = 1000000 \<longrightarrow>
      TransactionFeatures_validate (f\<lparr>transaction_amount_usd := a\<rparr>)
        = Inr (f\<lparr>transaction_amount_usd := a\<rparr>)"
  proof
    assume ok: "TransactionFeatures_errors f = [] \<and> fval a = 1000000"
    then have "TransactionFeatures_errors (f\<lparr>transaction_amount_usd := a\<rparr>) = []"
      by (simp add: errors_empty_iff)
    then show "TransactionFeatures_validate (f\<lparr>transaction_amount_usd := a\<rparr>)
        = Inr (f\<lparr>transaction_amount_usd := a\<rparr>)"
      by (rule validate_accepts)
  qed
  have acc2: "TransactionFeatures_errors f = [] \<longrightarrow>
      TransactionFeatures_validate (f\<lparr>hour_of_day := 0\<rparr>) = Inr (f\<lparr>hour_of_day := 0\<rparr>)
      \<and> TransactionFeatures_validate (f\<lparr>hour_of_day := 23\<rparr>) = Inr (f\<lparr>hour_of_day := 23\<rparr>)"
  proof
    assume ok: "TransactionFeatures_errors f = []"
    then have "TransactionFeatures_errors (f\<lparr>hour_of_day := 0\<rparr>) = []"
      and "TransactionFeatures_errors (f\<lparr>hour_of_day := 23\<rparr>) = []"
      by (simp_all add: errors_empty_iff)
    then show "TransactionFeatures_validate (f\<lparr>hour_of_day := 0\<rparr>) = Inr (f\<lparr>hour_of_day := 0\<rparr>)
      \<and> TransactionFeatures_validate (f\<lparr>hour_of_day := 23\<rparr>) = Inr (f\<lparr>hour_of_day := 23\<rparr>)"
      by (simp add: validate_accepts)
  qed
  have r1: "fval b = 1000001 \<longrightarrow>
        (\<exists>es. TransactionFeatures_validate (f\<lparr>transaction_amount_usd := b\<rparr>) = Inl es
           \<and> FieldError ''transaction_amount_usd''
                (ValueError ''Transaction amount exceeds maximum limit'') \<in> set es)"
    using amount_over_limit_error [of b f] validate_rejects [of "f\<lparr>transaction_amount_usd := b\<rparr>"]
    by fastforce
  have r2: "\<exists>es. TransactionFeatures_validate (f\<lparr>hour_of_day := 24\<rparr>) = Inl es
         \<and> FieldError ''hour_of_day'' (Le 23) \<in> set es"
    using hour_24_error [of f] validate_rejects [of "f\<lparr>hour_of_day := 24\<rparr>"]
    by fastforce
  have r3: "\<exists>es. TransactionFeatures_validate (f\<lparr>hour_of_day := - 1\<rparr>) = Inl es
         \<and> FieldError ''hour_of_day'' (Ge 0) \<in> set es"
    using hour_minus_1_error [of f] validate_rejects [of "f\<lparr>hour_of_day := - 1\<rparr>"]
    by fastforce
  from acc1 acc2 r1 r2 r3 show ?thesis by blast
qed

theorem validation_boundaries_witness:
  "TransactionFeatures_errors example_features = []
   \<and> fval (PyFloat 1 6) = 1000000
   \<and> fval (PyFloat 1000001 0) = 1000001
   \<and> TransactionFeatures_validate (example_features\<lparr>transaction_amount_usd := PyFloat 1 6\<rparr>)
        = Inr (example_features\<lparr>transaction_amount_usd := PyFloat 1 6\<rparr>)
   \<and> TransactionFeatures_validate (example_features\<lparr>hour_of_day := 0\<rparr>)
        = Inr (example_features\<lparr>hour_of_day := 0\<rparr>)
   \<and> TransactionFeatures_validate (example_features\<lparr>hour_of_day := 23\<rparr>)
        = Inr (example_features\<lparr>hour_of_day := 23\<rparr>)
   \<and> (\<exists>es. TransactionFeatures_validate
               (example_features\<lparr>transaction_amount_usd := PyFloat 1000001 0\<rparr>) = Inl es
         \<and> FieldError ''transaction_amount_usd''
              (ValueError ''Transaction amount exceeds maximum limit'') \<in> set es)"
proof -
  have ok: "TransactionFeatures_errors example_features = []"
    by (simp add: TransactionFeatures_errors_def amount_errors_def check_bounds_def
          validate_amount_def example_features_def fval_def)
  have a: "fval (PyFloat 1 6) = 1000000" and b: "fval (PyFloat 1000001 0) = 1000001"
    by (simp_all add: fval_def)
  show ?thesis
    using ok a b validation_boundaries [of example_features "PyFloat 1 6" "PyFloat 1000001 0"]
    by blast
qed

section \<open>Failures of the prediction\<close>

text \<open>
  C3, as stated, fails: a \<open>ValueError\<close> raised by the prediction is caught by
  the handler's \<open>except ValueError\<close> clause, so it is answered with status 400
  and its message, and counted under \<open>status=validation_error\<close>.
\<close>

theorem predictor_value_error_counterexample:
  "fst (score_transaction example_lib
          (example_state (\<lambda>v. Inl (PyValueError ''Input X contains infinity'')))
          example_request None example_env)
     = Inl (HTTPException 400 ''Invalid input: Input X contains infinity'')
   \<and> PREDICTION_COUNTER
       (snd (score_transaction example_lib
               (example_state (\<lambda>v. Inl (PyValueError ''Input X contains infinity'')))
               example_request None example_env))
       (''v1.0.0'', ''ERROR'', ''validation_error'') = 1
   \<and> PREDICTION_COUNTER
       (snd (score_transaction example_lib
               (example_state (\<lambda>v. Inl (PyValueError ''Input X contains infinity'')))
               example_request None example_env))
       (''v1.0.0'', ''ERROR'', ''error'') = 0"
  by (simp add: score_transaction_def score_try_def example_state_def initial_state_def
        inc_counter_def observe_latency_def Let_def)

text \<open>
  C3, amended. A failure raised by the prediction that is a \<open>ValueError\<close> is
  answered with status 400 and the text \<open>Invalid input:\<close> followed by its
  message, and increments the counter with \<open>status=validation_error\<close>; any other
  failure is answered with status 500 and the fixed text \<open>Internal server
  error\<close>, and increments the counter with \<open>status=error\<close>. Either way the
  counter moves by exactly one and the audit log is left as it was.
\<close>

theorem predictor_failure_outcome:
  assumes "model st = Some m" and "m (feature_vector (features request)) = Inl exn"
  shows "\<exists>st'. score_transaction L st request hdr e =
             (Inl (case exn of
                     PyValueError msg \<Rightarrow> HTTPException 400 (''Invalid input: '' @ msg)
                   | PyException msg \<Rightarrow> HTTPException 500 ''Internal server error''), st')
           \<and> PREDICTION_COUNTER st' =
               (PREDICTION_COUNTER st)
                 ((MODEL_VERSION st, ''ERROR'',
                   (case exn of PyValueError msg \<Rightarrow> ''validation_error''
                              | PyException msg \<Rightarrow> ''error'')) :=
                    PREDICTION_COUNTER st
                      (MODEL_VERSION st, ''ERROR'',
                       (case exn of PyValueError msg \<Rightarrow> ''validation_error''
                                  | PyException msg \<Rightarrow> ''error'')) + 1)
           \<and> audit_logs st' = audit_logs st"
  using score_transaction_raises [OF assms, of L hdr e]
  by (cases exn) (simp_all add: inc_counter_def observe_latency_def)

theorem predictor_failure_outcome_witness:
  "(\<exists>st'. score_transaction example_lib (example_state (\<lambda>v. Inl (PyException ''boom'')))
            example_request None example_env
          = (Inl (HTTPException 500 ''Internal server error''), st')
        \<and> PREDICTION_COUNTER st' (''v1.0.0'', ''ERROR'', ''error'') = 1
        \<and> audit_logs st' = [])
   \<and> (\<exists>st'. score_transaction example_lib (example_state (\<lambda>v. Inl (PyValueError ''bad'')))
            example_request None example_env
          = (Inl (HTTPException 400 ''Invalid input: bad''), st')
        \<and> PREDICTION_COUNTER st' (''v1.0.0'', ''ERROR'', ''validation_error'') = 1
        \<and> audit_logs st' = [])"
proof -
  have m: "\<And>x. model (example_state (\<lambda>v. Inl x)) = Some (\<lambda>v. Inl x)"
    by (simp add: example_state_def)
  note t = predictor_failure_outcome [OF m, where request = example_request
      and L = example_lib and hdr = None and e = example_env]
  have a: "audit_logs (example_state q) = []"
    and c: "PREDICTION_COUNTER (example_state q) = (\<lambda>_. 0)"
    and v: "MODEL_VERSION (example_state q) = ''v1.0.0''" for q
    by (simp_all add: example_state_def initial_state_def)
  show ?thesis
    using t [where exn = "PyException ''boom''"] t [where exn = "PyValueError ''bad''"]
    by (auto simp add: a c v)
qed

section \<open>Metrics and audit entries of one scoring attempt\<close>

text \<open>
  Once the handler runs: every call of \<open>score_transaction\<close>, whatever its
  outcome, increments exactly one counter of \<open>PREDICTION_COUNTER\<close> by one,
  and appends exactly one complete audit entry when it returns a response
  and none when it fails.
\<close>

lemma score_transaction_metrics_and_audit:
  "\<exists>res st'. score_transaction L st request hdr e = (res, st')
     \<and> (\<exists>l. PREDICTION_COUNTER st' = (PREDICTION_COUNTER st)(l := PREDICTION_COUNTER st l + 1))
     \<and> (case res of
           Inl err \<Rightarrow> audit_logs st' = audit_logs st
         | Inr resp \<Rightarrow>
             (\<exists>entry. audit_logs st' = audit_logs st @ [entry]
                \<and> audit_transaction_id entry = resp_transaction_id resp
                \<and> audit_risk_level entry = risk_level resp
                \<and> audit_recommendation entry = recommendation resp
                \<and> audit_correlation_id entry = correlation_id resp))"
proof (cases "model st")
  case None
  show ?thesis
    unfolding score_transaction_no_model [OF None]
    by (auto simp add: inc_counter_def)
next
  case (Some m)
  show ?thesis
  proof (cases "m (feature_vector (features request))")
    case (Inl exn)
    show ?thesis
      unfolding score_transaction_raises [OF Some Inl]
      by (cases exn) (auto simp add: inc_counter_def observe_latency_def)
  next
    case (Inr p)
    from score_transaction_ok [OF Some Inr, of L hdr e] show ?thesis
      by force
  qed
qed

section \<open>Requests that fail validation\<close>

text \<open>
  A body that fails validation never reaches the handler; the state is
  returned as it was.
\<close>

lemma post_score_invalid:
  assumes "RiskScoreRequest_validate raw = Inl es"
  shows "post_score L st raw hdr e =
           (\<lparr>header_x_correlation_id = add_correlation_id hdr e,
             body = Inl (RequestValidationError es)\<rparr>, st)"
  using assms by (simp add: post_score_def)

lemma post_score_valid:
  assumes "TransactionFeatures_errors (features raw) = []"
  shows "post_score L st raw hdr e =
           (\<lparr>header_x_correlation_id = add_correlation_id hdr e,
             body = fst (score_transaction L st raw hdr e)\<rparr>,
            snd (score_transaction L st raw hdr e))"
  using assms
  by (simp add: post_score_def RiskScoreRequest_validate_def TransactionFeatures_validate_def
        Let_def)

text \<open>
  C4, evaluated at a request whose amount is 1,000,001, sent to a service with
  a loaded model: the attempt is answered with the validation error before
  the handler runs, so no counter is updated at all (every counter is still
  0), where the claim has exactly one update; no audit entry is written.
\<close>

theorem invalid_request_updates_no_counter:
  "body (fst (post_score example_lib (example_state (\<lambda>v. Inr 0.85))
                (example_request
                   \<lparr>features := example_features\<lparr>transaction_amount_usd := PyFloat 1000001 0\<rparr>\<rparr>)
                None example_env))
     = Inl (RequestValidationError
              [FieldError ''transaction_amount_usd''
                 (ValueError ''Transaction amount exceeds maximum limit'')])
   \<and> PREDICTION_COUNTER
        (snd (post_score example_lib (example_state (\<lambda>v. Inr 0.85))
                (example_request
                   \<lparr>features := example_features\<lparr>transaction_amount_usd := PyFloat 1000001 0\<rparr>\<rparr>)
                None example_env))
     = PREDICTION_COUNTER (example_state (\<lambda>v. Inr 0.85))
   \<and> PREDICTION_COUNTER (example_state (\<lambda>v. Inr 0.85)) = (\<lambda>labels. 0)
   \<and> audit_logs
        (snd (post_score example_lib (example_state (\<lambda>v. Inr 0.85))
                (example_request
                   \<lparr>features := example_features\<lparr>transaction_amount_usd := PyFloat 1000001 0\<rparr>\<rparr>)
                None example_env)) = []"
proof -
  have "RiskScoreRequest_validate
          (example_request
             \<lparr>features := example_features\<lparr>transaction_amount_usd := PyFloat 1000001 0\<rparr>\<rparr>)
        = Inl [FieldError ''transaction_amount_usd''
                 (ValueError ''Transaction amount exceeds maximum limit'')]"
    by (simp add: RiskScoreRequest_validate_def TransactionFeatures_validate_def
          TransactionFeatures_errors_def amount_errors_def check_bounds_def
          validate_amount_def example_features_def fval_def)
  then show ?thesis
    by (simp add: post_score_invalid example_state_def initial_state_def)
qed

text \<open>
  C5, evaluated at a request whose \<open>hour_of_day\<close> is 24, sent to a service
  with a loaded model: the answer is the validation error, no audit entry
  is written, and the counter labelled \<open>status=validation_error\<close> stays at 0.
\<close>

theorem invalid_request_leaves_counters:
  "body (fst (post_score example_lib (example_state (\<lambda>v. Inr 0.85))
                (example_request\<lparr>features := example_features\<lparr>hour_of_day := 24\<rparr>\<rparr>)
                None example_env))
     = Inl (RequestValidationError [FieldError ''hour_of_day'' (Le 23)])
   \<and> PREDICTION_COUNTER
        (snd (post_score example_lib (example_state (\<lambda>v. Inr 0.85))
                (example_request\<lparr>features := example_features\<lparr>hour_of_day := 24\<rparr>\<rparr>)
                None example_env))
        (''v1.0.0'', ''ERROR'', ''validation_error'') = 0
   \<and> audit_logs
        (snd (post_score example_lib (example_state (\<lambda>v. Inr 0.85))
                (example_request\<lparr>features := example_features\<lparr>hour_of_day := 24\<rparr>\<rparr>)
                None example_env)) = []"
proof -
  have "RiskScoreRequest_validate
          (example_request\<lparr>features := example_features\<lparr>hour_of_day := 24\<rparr>\<rparr>)
        = Inl [FieldError ''hour_of_day'' (Le 23)]"
    by (simp add: RiskScoreRequest_validate_def TransactionFeatures_validate_def
          TransactionFeatures_errors_def amount_errors_def check_bounds_def
          validate_amount_def example_features_def fval_def)
  then show ?thesis
    by (simp add: post_score_invalid example_state_def initial_state_def)
qed

section \<open>The features hash\<close>

text \<open>
  The digests of the two printed dicts, computed: the dicts differ in the
  sign printed for the country risk score.
\<close>

lemma sha_zero_risk:
  "sha256_hex (str_features_dict zero_risk_features)
     = ''b6f6e88bd02c9aed20cbe59a8342a30d62e556d65ca601eba6a2e18a0bb7eec8''"
  by code_simp

lemma sha_negzero_risk:
  "sha256_hex (str_features_dict negzero_risk_features)
     = ''c133fd8b4d4bac5f284b3c9a85deb12377965669b03ffa37db56d38070b3ce05''"
  by code_simp

lemma post_score_python_hash:
  assumes "TransactionFeatures_errors f = []"
  shows "map_sum id features_hash
           (body (fst (post_score python_lib (example_state (\<lambda>v. Inr 0.85))
                         (example_request\<lparr>features := f\<rparr>) None example_env)))
         = Inr (sha256_hex (str_features_dict f))"
proof -
  have m: "model (example_state (\<lambda>v. Inr 0.85)) = Some (\<lambda>v. Inr 0.85)"
    by (simp add: example_state_def)
  have v: "(\<lambda>v. Inr 0.85) (feature_vector (features (example_request\<lparr>features := f\<rparr>)))
             = (Inr 0.85 :: py_exception + real)"
    by simp
  from score_transaction_ok [OF m v, where L = python_lib and hdr = None and e = example_env]
  obtain resp st' where
    "score_transaction python_lib (example_state (\<lambda>v. Inr 0.85))
       (example_request\<lparr>features := f\<rparr>) None example_env = (Inr resp, st')"
    "features_hash resp
       = sha256_hexdigest python_lib (str_dict python_lib (features (example_request\<lparr>features := f\<rparr>)))"
    by blast
  with assms show ?thesis
    by (simp add: post_score_valid python_lib_def)
qed

text \<open>
  C6, as stated, fails: the feature sets with a country risk score of \<open>0.0\<close>
  and of \<open>-0.0\<close> both pass validation and are equal field for field under
  Python's \<open>==\<close>, yet their hashes differ.
\<close>

theorem features_hash_signed_zero_counterexample:
  "py_eq_features zero_risk_features negzero_risk_features
   \<and> TransactionFeatures_errors zero_risk_features = []
   \<and> TransactionFeatures_errors negzero_risk_features = []
   \<and> map_sum id features_hash
        (body (fst (post_score python_lib (example_state (\<lambda>v. Inr 0.85))
                      (example_request\<lparr>features := zero_risk_features\<rparr>) None example_env)))
      = Inr ''b6f6e88bd02c9aed20cbe59a8342a30d62e556d65ca601eba6a2e18a0bb7eec8''
   \<and> map_sum id features_hash
        (body (fst (post_score python_lib (example_state (\<lambda>v. Inr 0.85))
                      (example_request\<lparr>features := negzero_risk_features\<rparr>) None example_env)))
      = Inr ''c133fd8b4d4bac5f284b3c9a85deb12377965669b03ffa37db56d38070b3ce05''"
proof -
  have eq: "py_eq_features zero_risk_features negzero_risk_features"
    by (simp add: py_eq_features_def zero_risk_features_def negzero_risk_features_def fval_def)
  have v0: "TransactionFeatures_errors zero_risk_features = []"
    and v1: "TransactionFeatures_errors negzero_risk_features = []"
    by (simp_all add: errors_empty_iff zero_risk_features_def negzero_risk_features_def
          example_features_def fval_def)
  show ?thesis
    using eq v0 v1 post_score_python_hash [OF v0] post_score_python_hash [OF v1]
    by (simp only: sha_zero_risk sha_negzero_risk simp_thms)
qed

text \<open>The hash of a successful scoring is the digest of the printed features and nothing else.\<close>

lemma score_transaction_hash:
  assumes "score_transaction L st request hdr e = (Inr resp, st')"
  shows "features_hash resp = sha256_hexdigest L (str_dict L (features request))"
proof (cases "model st")
  case None
  with assms show ?thesis by (simp add: score_transaction_no_model)
next
  case (Some m)
  show ?thesis
  proof (cases "m (feature_vector (features request))")
    case (Inl exn)
    with assms Some show ?thesis
      by (cases exn) (simp_all add: score_transaction_raises)
  next
    case (Inr p)
    from score_transaction_ok [OF Some Inr, of L hdr e] assms show ?thesis
      by auto
  qed
qed

text \<open>
  C6, amended. Two successful scorings whose features are identical, float
  fields being the same float (so that \<open>0.0\<close> and \<open>-0.0\<close> are different), return
  the same \<open>features_hash\<close>, whatever the state of the service, the other
  fields of the request, the correlation header and the clock are.
\<close>

theorem features_hash_deterministic:
  assumes "score_transaction L st1 request1 hdr1 e1 = (Inr resp1, st1')"
    and "score_transaction L st2 request2 hdr2 e2 = (Inr resp2, st2')"
    and "features request1 = features request2"
  shows "features_hash resp1 = features_hash resp2"
  using score_transaction_hash [OF assms(1)] score_transaction_hash [OF assms(2)] assms(3)
  by simp

theorem features_hash_deterministic_witness:
  "\<exists>resp1 st1' resp2 st2'.
      score_transaction example_lib (example_state (\<lambda>v. Inr 0.85)) example_request None example_env
        = (Inr resp1, st1')
    \<and> score_transaction example_lib
        ((example_state (\<lambda>v. Inr 0.1))\<lparr>HIGH_RISK_TRANSACTIONS := 7\<rparr>)
        (example_request\<lparr>transaction_id := ''T2'', customer_id := Some ''C9''\<rparr>)
        (Some ''abc'') (example_env\<lparr>start_time := 200, end_time := 200.5\<rparr>)
        = (Inr resp2, st2')
    \<and> features_hash resp1 = features_hash resp2"
proof -
  obtain resp1 st1' where 1:
    "score_transaction example_lib (example_state (\<lambda>v. Inr 0.85)) example_request None example_env
       = (Inr resp1, st1')"
    using score_transaction_ok [where st = "example_state (\<lambda>v. Inr 0.85)"
        and m = "\<lambda>v. Inr 0.85" and p = "0.85"]
    by (fastforce simp add: example_state_def)
  obtain resp2 st2' where 2:
    "score_transaction example_lib
        ((example_state (\<lambda>v. Inr 0.1))\<lparr>HIGH_RISK_TRANSACTIONS := 7\<rparr>)
        (example_request\<lparr>transaction_id := ''T2'', customer_id := Some ''C9''\<rparr>)
        (Some ''abc'') (example_env\<lparr>start_time := 200, end_time := 200.5\<rparr>)
       = (Inr resp2, st2')"
    using score_transaction_ok
        [where st = "(example_state (\<lambda>v. Inr 0.1))\<lparr>HIGH_RISK_TRANSACTIONS := 7\<rparr>"
        and m = "\<lambda>v. Inr 0.1" and p = "0.1"]
    by (fastforce simp add: example_state_def)
  have "features_hash resp1 = features_hash resp2"
    using features_hash_deterministic [OF 1 2] by simp
  with 1 2 show ?thesis by blast
qed

section \<open>Tail reads of the audit log\<close>

text \<open>
  C7, evaluated with five entries in the log and limit 0: the read returns
  all five entries (\<open>audit_logs[-0:]\<close> is the whole list), where the claim
  has at most \<open>limit\<close>, that is none.
\<close>

theorem get_audit_logs_limit_zero:
  "length (audit_logs example_state5) = 5
   \<and> snd (get_audit_logs example_state5 0)
       = map example_entry [''T1'', ''T2'', ''T3'', ''T4'', ''T5'']
   \<and> length (snd (get_audit_logs example_state5 0)) = 5
   \<and> \<not> int (length (snd (get_audit_logs example_state5 0))) \<le> 0"
  by (simp add: get_audit_logs_def py_slice_from_def example_state5_def Let_def)

text \<open>A negative limit drops that many of the oldest entries: limit -1 returns four of five.\<close>

lemma get_audit_logs_limit_negative:
  "snd (get_audit_logs example_state5 (- 1)) = map example_entry [''T2'', ''T3'', ''T4'', ''T5'']"
  by (simp add: get_audit_logs_def py_slice_from_def example_state5_def Let_def)

text \<open>For a positive \<open>k\<close>, \<open>xs[-k:]\<close> is the last \<open>k\<close> elements, or all of \<open>xs\<close> when it is shorter.\<close>

lemma py_slice_from_tail:
  assumes "1 \<le> k"
  shows "py_slice_from xs (- k) = drop (length xs - nat k) xs"
proof -
  have "nat (max (- k + int (length xs)) 0) = length xs - nat k"
    using assms by linarith
  with assms show ?thesis by (simp add: py_slice_from_def Let_def)
qed

text \<open>
  For every limit of at least 1 the same expression does return the tail: the
  most recent entries, oldest first, as many as the limit says or all of
  them when the log is shorter; so at most \<open>limit\<close> entries, and exactly 2
  for limit 2 on a log of 5. The total reported beside them is the length of
  the whole log.
\<close>

lemma get_audit_logs_tail:
  assumes "1 \<le> limit"
  shows "snd (get_audit_logs st limit)
           = drop (length (audit_logs st) - nat limit) (audit_logs st)
       \<and> int (length (snd (get_audit_logs st limit))) = min limit (int (length (audit_logs st)))
       \<and> int (length (snd (get_audit_logs st limit))) \<le> limit
       \<and> fst (get_audit_logs st limit) = length (audit_logs st)"
  using assms py_slice_from_tail [OF assms, of "audit_logs st"]
  by (auto simp add: get_audit_logs_def)

lemma get_audit_logs_tail_example:
  "(1::int) \<le> 2
   \<and> length (audit_logs example_state5) = 5
   \<and> snd (get_audit_logs example_state5 2) = [example_entry ''T4'', example_entry ''T5'']
   \<and> length (snd (get_audit_logs example_state5 2)) = 2"
proof -
  have h: "(1::int) \<le> 2" by simp
  have a: "audit_logs example_state5 = map example_entry [''T1'', ''T2'', ''T3'', ''T4'', ''T5'']"
    by (simp add: example_state5_def)
  show ?thesis using get_audit_logs_tail [OF h, of example_state5]
    by (simp add: a)
qed

section \<open>The high-risk gauge\<close>

lemma score_transaction_gauge:
  "HIGH_RISK_TRANSACTIONS (snd (score_transaction L st request hdr e))
     = HIGH_RISK_TRANSACTIONS st
       + (case fst (score_transaction L st request hdr e) of
            Inr resp \<Rightarrow> if risk_level resp \<in> set [''HIGH'', ''CRITICAL''] then 1 else 0
          | Inl err \<Rightarrow> 0)"
proof (cases "model st")
  case None
  show ?thesis
    unfolding score_transaction_no_model [OF None] by (simp add: inc_counter_def)
next
  case (Some m)
  show ?thesis
  proof (cases "m (feature_vector (features request))")
    case (Inl exn)
    show ?thesis
      unfolding score_transaction_raises [OF Some Inl]
      by (cases exn) (simp_all add: inc_counter_def observe_latency_def)
  next
    case (Inr p)
    from score_transaction_ok [OF Some Inr, of L hdr e] show ?thesis
      by force
  qed
qed

lemma post_score_gauge:
  "HIGH_RISK_TRANSACTIONS (snd (post_score L st raw hdr e))
     = HIGH_RISK_TRANSACTIONS st
       + (case body (fst (post_score L st raw hdr e)) of
            Inr resp \<Rightarrow> if risk_level resp \<in> set [''HIGH'', ''CRITICAL''] then 1 else 0
          | Inl err \<Rightarrow> 0)"
proof (cases "RiskScoreRequest_validate raw")
  case (Inl es)
  show ?thesis unfolding post_score_invalid [OF Inl] by simp
next
  case (Inr request)
  then show ?thesis
    using score_transaction_gauge [of L st request hdr e]
    by (simp add: post_score_def Let_def)
qed

lemma handle_gauge:
  "HIGH_RISK_TRANSACTIONS (snd (handle L st c))
     = HIGH_RISK_TRANSACTIONS st + (if high_risk_success (fst (handle L st c)) then 1 else 0)"
proof (cases c)
  case (PostScore raw hdr e)
  then show ?thesis
    using post_score_gauge [of L st raw hdr e]
    by (simp add: handle_def high_risk_success_def split: sum.splits)
qed (simp_all add: handle_def high_risk_success_def)

lemma run_gauge:
  "HIGH_RISK_TRANSACTIONS (snd (run L st cs))
     = HIGH_RISK_TRANSACTIONS st + int (length (filter high_risk_success (fst (run L st cs))))"
proof (induction cs arbitrary: st)
  case Nil
  show ?case by simp
next
  case (Cons c cs)
  show ?case
    using Cons.IH [of "snd (handle L st c)"] handle_gauge [of L st c]
    by simp
qed

text \<open>
  C8. Each call of the service changes the gauge by one when it is a successful
  scoring with risk level HIGH or CRITICAL, and leaves it alone otherwise; so
  after any sequence of calls the gauge has grown by the number of high-risk
  successes, and counted from a fresh process it equals that number.
\<close>

theorem high_risk_gauge_cumulative:
  "HIGH_RISK_TRANSACTIONS (snd (handle L st c))
     = HIGH_RISK_TRANSACTIONS st + (if high_risk_success (fst (handle L st c)) then 1 else 0)
   \<and> HIGH_RISK_TRANSACTIONS (snd (run L st cs))
     = HIGH_RISK_TRANSACTIONS st + int (length (filter high_risk_success (fst (run L st cs))))
   \<and> HIGH_RISK_TRANSACTIONS (snd (run L ((initial_state version environment)\<lparr>model := mo\<rparr>) cs))
     = int (length (filter high_risk_success
                      (fst (run L ((initial_state version environment)\<lparr>model := mo\<rparr>) cs))))"
  using handle_gauge [of L st c] run_gauge [of L st cs]
    run_gauge [of L "(initial_state version environment)\<lparr>model := mo\<rparr>" cs]
  by (simp add: initial_state_def)

section \<open>Correlation identifiers\<close>

text \<open>
  With a non-empty \<open>X-Correlation-ID\<close> header, a successful scoring carries the
  caller's identifier in the response header, in the response body and in
  the audit entry.
\<close>

lemma supplied_correlation_id_echoed:
  assumes "s \<noteq> []" and "model st = Some m"
    and "m (feature_vector (features request)) = Inr p"
    and "TransactionFeatures_errors (features request) = []"
  shows "\<exists>resp st' entry. post_score L st request (Some s) e
             = (\<lparr>header_x_correlation_id = s, body = Inr resp\<rparr>, st')
           \<and> correlation_id resp = s
           \<and> audit_logs st' = audit_logs st @ [entry]
           \<and> audit_correlation_id entry = s"
proof -
  from score_transaction_ok [OF assms(2,3), of L "Some s" e]
  obtain resp st' entry where
    "score_transaction L st request (Some s) e = (Inr resp, st')"
    "correlation_id resp = handler_correlation_id (Some s) e"
    "audit_logs st' = audit_logs st @ [entry]"
    "audit_correlation_id entry = handler_correlation_id (Some s) e"
    by blast
  with assms(1) show ?thesis
    by (simp add: post_score_valid [OF assms(4)] add_correlation_id_def
          handler_correlation_id_def)
qed

text \<open>
  C9, evaluated at a valid request without the header: the middleware and the
  handler each draw a UUID of their own, so the response header carries one
  token (\<open>uuid-A\<close>) while the response body and the audit entry carry
  another (\<open>uuid-B\<close>).
\<close>

theorem absent_header_two_tokens:
  "fst (post_score example_lib (example_state (\<lambda>v. Inr 0.85)) example_request None example_env)
     = \<lparr>header_x_correlation_id = ''uuid-A'',
        body = Inr \<lparr>resp_transaction_id = ''T1'',
                    risk_score = 0.85,
                    risk_level = ''CRITICAL'',
                    recommendation = ''REJECT'',
                    model_version = ''v1.0.0'',
                    timestamp = ''2024-01-01T00:00:00.000200'',
                    correlation_id = ''uuid-B'',
                    features_hash = ''features'',
                    processing_time_ms = 12\<rparr>\<rparr>
   \<and> map audit_correlation_id
        (audit_logs (snd (post_score example_lib (example_state (\<lambda>v. Inr 0.85))
                            example_request None example_env)))
     = [''uuid-B'']"
  by (simp add: post_score_def RiskScoreRequest_validate_def TransactionFeatures_validate_def
        TransactionFeatures_errors_def amount_errors_def check_bounds_def validate_amount_def
        fval_def example_request_def example_features_def example_env_def example_lib_def
        example_state_def initial_state_def
        score_transaction_def score_try_def handler_correlation_id_def add_correlation_id_def
        feature_vector_def determine_risk_def py_round_def round_half_even_def
        create_audit_log_def inc_counter_def observe_latency_def Let_def)

section \<open>Audited and returned score\<close>

text \<open>\<open>py_round x n\<close> is within half a unit of the \<open>n\<close>-th decimal of \<open>x\<close>.\<close>

lemma round_half_even_close: "\<bar>of_int (round_half_even x) - x\<bar> \<le> 1 / 2"
proof -
  have lo: "of_int \<lfloor>x\<rfloor> \<le> x" and hi: "x < of_int \<lfloor>x\<rfloor> + 1" by linarith+
  consider "x - of_int \<lfloor>x\<rfloor> < 1 / 2" | "x - of_int \<lfloor>x\<rfloor> > 1 / 2" | "x - of_int \<lfloor>x\<rfloor> = 1 / 2"
    by linarith
  then show ?thesis
  proof cases
    case 1
    then have "round_half_even x = \<lfloor>x\<rfloor>" by (simp add: round_half_even_def Let_def)
    with 1 lo show ?thesis by simp
  next
    case 2
    then have "round_half_even x = \<lfloor>x\<rfloor> + 1" by (simp add: round_half_even_def Let_def)
    with 2 hi show ?thesis by simp
  next
    case 3
    then have "round_half_even x = \<lfloor>x\<rfloor> \<or> round_half_even x = \<lfloor>x\<rfloor> + 1"
      by (simp add: round_half_even_def Let_def)
    with 3 show ?thesis by auto
  qed
qed

lemma py_round_close: "\<bar>py_round x n - x\<bar> \<le> 1 / (2 * 10 ^ n)"
proof -
  have pos: "(0::real) < 10 ^ n" by simp
  have "py_round x n - x = (of_int (round_half_even (x * 10 ^ n)) - x * 10 ^ n) / 10 ^ n"
    by (simp add: py_round_def diff_divide_distrib)
  then have "\<bar>py_round x n - x\<bar> = \<bar>of_int (round_half_even (x * 10 ^ n)) - x * 10 ^ n\<bar> / 10 ^ n"
    by (simp add: abs_divide)
  also have "\<dots> \<le> (1 / 2) / 10 ^ n"
    by (rule divide_right_mono [OF round_half_even_close]) simp
  finally show ?thesis by simp
qed

lemma py_round_example: "py_round 0.123456 4 = 0.1235"
  by (simp add: py_round_def round_half_even_def Let_def)

text \<open>
  C10. Every successful scoring appends an audit entry holding the score as
  the model returned it, and returns a response holding that score rounded
  to 4 decimals; for the score 0.123456 the two differ (0.123456 against
  0.1235).
\<close>

theorem audit_score_unrounded:
  "(\<forall>st m request p L hdr e.
      model st = Some m \<and> m (feature_vector (features request)) = Inr p \<longrightarrow>
        (\<exists>resp st' entry. score_transaction L st request hdr e = (Inr resp, st')
           \<and> audit_logs st' = audit_logs st @ [entry]
           \<and> audit_risk_score entry = p
           \<and> risk_score resp = py_round p 4))
   \<and> (\<exists>resp st' entry.
         score_transaction example_lib (example_state (\<lambda>v. Inr 0.123456)) example_request None
           example_env = (Inr resp, st')
         \<and> audit_logs st' = [entry]
         \<and> audit_risk_score entry = 0.123456
         \<and> risk_score resp = 0.1235
         \<and> audit_risk_score entry \<noteq> risk_score resp)"
proof -
  have gen: "\<exists>resp st' entry. score_transaction L st request hdr e = (Inr resp, st')
           \<and> audit_logs st' = audit_logs st @ [entry]
           \<and> audit_risk_score entry = p
           \<and> risk_score resp = py_round p 4"
    if "model st = Some m" and "m (feature_vector (features request)) = Inr p"
    for st m request p L hdr e
    using score_transaction_ok [OF that, of L hdr e] by blast
  have m: "model (example_state (\<lambda>v. Inr 0.123456)) = Some (\<lambda>v. Inr 0.123456)"
    and a: "audit_logs (example_state (\<lambda>v. Inr 0.123456)) = []"
    by (simp_all add: example_state_def initial_state_def)
  have v: "(\<lambda>v. Inr 0.123456) (feature_vector (features example_request))
             = (Inr 0.123456 :: py_exception + real)"
    by simp
  from gen [OF m v, where L = example_lib and hdr = None and e = example_env]
  obtain resp st' entry where r:
    "score_transaction example_lib (example_state (\<lambda>v. Inr 0.123456)) example_request None
       example_env = (Inr resp, st')"
    "audit_logs st' = audit_logs (example_state (\<lambda>v. Inr 0.123456)) @ [entry]"
    "audit_risk_score entry = 0.123456"
    "risk_score resp = py_round 0.123456 4"
    by blast
  have ne: "audit_risk_score entry \<noteq> risk_score resp"
    unfolding r(3,4) py_round_example by simp
  have ex: "\<exists>resp st' entry.
         score_transaction example_lib (example_state (\<lambda>v. Inr 0.123456)) example_request None
           example_env = (Inr resp, st')
         \<and> audit_logs st' = [entry]
         \<and> audit_risk_score entry = 0.123456
         \<and> risk_score resp = 0.1235
         \<and> audit_risk_score entry \<noteq> risk_score resp"
    using r ne unfolding a py_round_example by auto
  from gen ex show ?thesis by blast
qed

theorem audit_score_unrounded_witness:
  "model (example_state (\<lambda>v. Inr 0.85001)) = Some (\<lambda>v. Inr 0.85001)
   \<and> (\<exists>resp st' entry.
         score_transaction example_lib (example_state (\<lambda>v. Inr 0.85001)) example_request None
           example_env = (Inr resp, st')
         \<and> audit_logs st' = audit_logs (example_state (\<lambda>v. Inr 0.85001)) @ [entry]
         \<and> audit_risk_score entry = 0.85001
         \<and> risk_score resp = py_round 0.85001 4)"
proof -
  have m: "model (example_state (\<lambda>v. Inr 0.85001)) = Some (\<lambda>v. Inr 0.85001)"
    by (simp add: example_state_def)
  from audit_score_unrounded
  have "model (example_state (\<lambda>v. Inr 0.85001)) = Some (\<lambda>v. Inr 0.85001)
          \<and> (\<lambda>v. Inr 0.85001) (feature_vector (features example_request))
                = (Inr 0.85001 :: py_exception + real) \<longrightarrow>
        (\<exists>resp st' entry.
           score_transaction example_lib (example_state (\<lambda>v. Inr 0.85001)) example_request None
             example_env = (Inr resp, st')
           \<and> audit_logs st' = audit_logs (example_state (\<lambda>v. Inr 0.85001)) @ [entry]
           \<and> audit_risk_score entry = 0.85001
           \<and> risk_score resp = py_round 0.85001 4)"
    by blast
  with m show ?thesis by simp
qed

end
